theory Spec2Isabelle
  imports Main Complex_Main "HOL-Library.Sublist"
begin

section \<open>Python values produced by the YAML loader\<close>

text \<open>
  Modelled from the spec: the type of parsed documents. The parser (\<^verbatim>\<open>yaml.safe_load\<close>)
  is an external library; the spec describes its result as a tree of mappings (string
  key to value), ordered sequences and scalars (string, number, boolean). \<open>PNone\<close> is
  Python's \<^verbatim>\<open>None\<close>: the value of \<^verbatim>\<open>self.template\<close> before loading, of an empty
  file and of a key without a value. A mapping is an association list read with
  \<open>map_of\<close>. A \<open>string\<close> stands for a Python \<^verbatim>\<open>str\<close>, one \<open>char\<close> per character.
\<close>

datatype pyval =
    PNone
  | PBool bool
  | PInt int
  | PFloat real
  | PStr string
  | PList "pyval list"
  | PDict "(string \<times> pyval) list"

datatype py_error =
    TypeError
  | AttributeError
  | KeyError
  | ExternalError string

text \<open>\<^verbatim>\<open>bool(v)\<close>, as used by \<^verbatim>\<open>not self.template\<close> and \<^verbatim>\<open>if self.template\<close>.\<close>

fun truthy :: "pyval \<Rightarrow> bool" where
  "truthy PNone = False"
| "truthy (PBool b) = b"
| "truthy (PInt i) = (i \<noteq> 0)"
| "truthy (PFloat r) = (r \<noteq> 0)"
| "truthy (PStr s) = (s \<noteq> [])"
| "truthy (PList xs) = (xs \<noteq> [])"
| "truthy (PDict d) = (d \<noteq> [])"

text \<open>
  \<^verbatim>\<open>k in v\<close> for a string \<open>k\<close>: key membership on a mapping, substring test on a
  string, element membership on a sequence, and \<^verbatim>\<open>TypeError\<close> (argument is not
  iterable) on \<^verbatim>\<open>None\<close>, booleans and numbers.
\<close>

fun py_in :: "string \<Rightarrow> pyval \<Rightarrow> py_error + bool" where
  "py_in k (PDict d) = Inr (map_of d k \<noteq> None)"
| "py_in k (PStr s) = Inr (sublist k s)"
| "py_in k (PList xs) = Inr (PStr k \<in> set xs)"
| "py_in k PNone = Inl TypeError"
| "py_in k (PBool b) = Inl TypeError"
| "py_in k (PInt i) = Inl TypeError"
| "py_in k (PFloat r) = Inl TypeError"

text \<open>
  \<^verbatim>\<open>v[k]\<close> for a string \<open>k\<close>: lookup on a mapping (\<^verbatim>\<open>KeyError\<close> when the key is
  missing), \<^verbatim>\<open>TypeError\<close> on everything else (string and list indices must be
  integers, the other values are not subscriptable).
\<close>

fun py_getitem :: "pyval \<Rightarrow> string \<Rightarrow> py_error + pyval" where
  "py_getitem (PDict d) k = (case map_of d k of None \<Rightarrow> Inl KeyError | Some v \<Rightarrow> Inr v)"
| "py_getitem PNone k = Inl TypeError"
| "py_getitem (PBool b) k = Inl TypeError"
| "py_getitem (PInt i) k = Inl TypeError"
| "py_getitem (PFloat r) k = Inl TypeError"
| "py_getitem (PStr s) k = Inl TypeError"
| "py_getitem (PList xs) k = Inl TypeError"

text \<open>\<^verbatim>\<open>v.get(k, default)\<close>: only a mapping has it.\<close>

fun py_get :: "pyval \<Rightarrow> string \<Rightarrow> pyval \<Rightarrow> py_error + pyval" where
  "py_get (PDict d) k dflt = Inr (case map_of d k of None \<Rightarrow> dflt | Some v \<Rightarrow> v)"
| "py_get PNone k dflt = Inl AttributeError"
| "py_get (PBool b) k dflt = Inl AttributeError"
| "py_get (PInt i) k dflt = Inl AttributeError"
| "py_get (PFloat r) k dflt = Inl AttributeError"
| "py_get (PStr s) k dflt = Inl AttributeError"
| "py_get (PList xs) k dflt = Inl AttributeError"

text \<open>\<^verbatim>\<open>len(v)\<close>: characters, elements or keys; the other values have no length.\<close>

fun py_len :: "pyval \<Rightarrow> py_error + nat" where
  "py_len (PStr s) = Inr (length s)"
| "py_len (PList xs) = Inr (length xs)"
| "py_len (PDict d) = Inr (length (remdups (map fst d)))"
| "py_len PNone = Inl TypeError"
| "py_len (PBool b) = Inl TypeError"
| "py_len (PInt i) = Inl TypeError"
| "py_len (PFloat r) = Inl TypeError"

section \<open>Printed output\<close>

text \<open>
  A printed line is the list of the pieces of its (f-)string: literal text, one of the
  pictographs of the source, a newline written inside the string, and the formatted
  fields (a value, a number, an exception), kept unrendered. Writing to the standard
  output is taken to succeed.
\<close>

datatype glyph = Check | Cross | Warn | Magnifier | Chart | Rocket | Party | Memo

datatype piece =
    T string
  | G glyph
  | NL
  | V pyval
  | N nat
  | E py_error

type_synonym line = "piece list"

section \<open>The tester object and its environment\<close>

text \<open>
  The two attributes of \<^verbatim>\<open>AgentConfigTester\<close>, and the standard output of the process
  threaded with them.
\<close>

record tester =
  template_file :: string
  template :: pyval
  stdout :: "line list"

text \<open>
  The external collaborators, as parameters: reading a file as text, the YAML parser,
  the creation of the CloudFormation client and its \<^verbatim>\<open>validate_template\<close> call. Each
  either gives its result or raises.
\<close>

record world =
  open_read :: "string \<Rightarrow> py_error + string"
  yaml_safe_load :: "string \<Rightarrow> py_error + pyval"
  boto3_client :: "py_error + unit"
  validate_template :: "string \<Rightarrow> py_error + unit"

type_synonym 'a action = "tester \<Rightarrow> (py_error + 'a) \<times> tester"

definition init :: "string \<Rightarrow> tester" where
  "init file = \<lparr>template_file = file, template = PNone, stdout = []\<rparr>"

definition print :: "line \<Rightarrow> tester \<Rightarrow> tester" where
  "print l s = s\<lparr>stdout := stdout s @ [l]\<rparr>"

fun for_each :: "('a \<Rightarrow> unit action) \<Rightarrow> 'a list \<Rightarrow> unit action" where
  "for_each body [] s = (Inr (), s)"
| "for_each body (x # xs) s =
     (case body x s of
        (Inl e, s') \<Rightarrow> (Inl e, s')
      | (Inr u, s') \<Rightarrow> for_each body xs s')"

section \<open>The operations of the tester\<close>

definition load_template :: "world \<Rightarrow> bool action" where
  "load_template w s =
     (case open_read w (template_file s) of
        Inl e \<Rightarrow> (Inr False, print [G Cross, T '' Error loading template: '', E e] s)
      | Inr text \<Rightarrow>
          (case yaml_safe_load w text of
             Inl e \<Rightarrow> (Inr False, print [G Cross, T '' Error loading template: '', E e] s)
           | Inr doc \<Rightarrow>
               (Inr True,
                print [G Check, T '' Template loaded successfully: '', T (template_file s)]
                  (s\<lparr>template := doc\<rparr>))))"

definition validate_template_syntax :: "world \<Rightarrow> bool action" where
  "validate_template_syntax w s =
     (case boto3_client w of
        Inl e \<Rightarrow> (Inr False, print [G Cross, T '' Template validation error: '', E e] s)
      | Inr cf_client \<Rightarrow>
          (case open_read w (template_file s) of
             Inl e \<Rightarrow> (Inr False, print [G Cross, T '' Template validation error: '', E e] s)
           | Inr template_body \<Rightarrow>
               (case validate_template w template_body of
                  Inl e \<Rightarrow>
                    (Inr False, print [G Cross, T '' Template validation error: '', E e] s)
                | Inr u \<Rightarrow>
                    (Inr True,
                     print [G Check, T '' CloudFormation template syntax is valid''] s))))"

text \<open>
  The guard of every check, \<^verbatim>\<open>not self.template or K not in self.template\<close>: the
  membership test is evaluated only for a truthy document, and may raise.
\<close>

definition section_missing :: "pyval \<Rightarrow> string \<Rightarrow> py_error + bool" where
  "section_missing t k =
     (if \<not> truthy t then Inr True
      else case py_in k t of Inl e \<Rightarrow> Inl e | Inr b \<Rightarrow> Inr (\<not> b))"

text \<open>
  \<^verbatim>\<open>required_checks\<close>: the name, the expected \<^verbatim>\<open>Type\<close> and, where the entry has
  one, the expected \<^verbatim>\<open>AllowedValues\<close>.
\<close>

definition required_checks :: "(string \<times> string \<times> string list option) list" where
  "required_checks =
     [(''AgentName'', ''String'', None),
      (''FoundationModel'', ''String'', None),
      (''Environment'', ''String'', Some [''dev'', ''test'', ''prod''])]"

text \<open>The body of the loop of \<^verbatim>\<open>check_parameters\<close>.\<close>

definition check_param :: "pyval \<Rightarrow> string \<times> string \<times> string list option \<Rightarrow> unit action" where
  "check_param parameters = (\<lambda>(param_name, exp_type, exp_allowed) s.
     case py_in param_name parameters of
       Inl e \<Rightarrow> (Inl e, s)
     | Inr False \<Rightarrow> (Inr (), print [G Cross, T '' Missing parameter: '', T param_name] s)
     | Inr True \<Rightarrow>
         (case py_getitem parameters param_name of
            Inl e \<Rightarrow> (Inl e, s)
          | Inr param \<Rightarrow>
              (case py_get param ''Default'' (PStr ''No default'') of
                 Inl e \<Rightarrow> (Inl e, s)
               | Inr dflt \<Rightarrow>
                   (let s1 = print [G Check, T '' '', T param_name, T '': '', V dflt] s in
                    case py_get param ''Type'' PNone of
                      Inl e \<Rightarrow> (Inl e, s1)
                    | Inr ty \<Rightarrow>
                        (let s2 =
                           (if ty \<noteq> PStr exp_type
                            then print [T ''  '', G Warn, T ''  Type mismatch: expected '',
                                        T exp_type, T '', got '', V ty] s1
                            else s1) in
                         case exp_allowed of
                           None \<Rightarrow> (Inr (), s2)
                         | Some allowed \<Rightarrow>
                             (case py_in ''AllowedValues'' param of
                                Inl e \<Rightarrow> (Inl e, s2)
                              | Inr False \<Rightarrow>
                                  (Inr (),
                                   print [T ''  '', G Warn, T ''  Missing AllowedValues for '',
                                          T param_name] s2)
                              | Inr True \<Rightarrow>
                                  (case py_getitem param ''AllowedValues'' of
                                     Inl e \<Rightarrow> (Inl e, s2)
                                   | Inr av \<Rightarrow>
                                       (Inr (),
                                        if av \<noteq> PList (map PStr allowed)
                                        then print [T ''  '', G Warn,
                                                    T ''  AllowedValues mismatch for '',
                                                    T param_name] s2
                                        else s2))))))))"

definition check_parameters :: "bool action" where
  "check_parameters s =
     (case section_missing (template s) ''Parameters'' of
        Inl e \<Rightarrow> (Inl e, s)
      | Inr True \<Rightarrow> (Inr False, print [G Cross, T '' No Parameters section found in template''] s)
      | Inr False \<Rightarrow>
          (case py_getitem (template s) ''Parameters'' of
             Inl e \<Rightarrow> (Inl e, s)
           | Inr parameters \<Rightarrow>
               (case for_each (check_param parameters) required_checks
                       (print [NL, G Magnifier, T '' Checking Parameters:''] s) of
                  (Inl e, s') \<Rightarrow> (Inl e, s')
                | (Inr u, s') \<Rightarrow> (Inr True, s'))))"

definition expected_resources :: "string list" where
  "expected_resources =
     [''BedrockAgentRole'', ''BedrockAgent'', ''BedrockAgentAlias'', ''AgentLogGroup'']"

text \<open>The body of the loop of \<^verbatim>\<open>check_resources\<close>.\<close>

definition check_resource :: "pyval \<Rightarrow> string \<Rightarrow> unit action" where
  "check_resource resources resource s =
     (case py_in resource resources of
        Inl e \<Rightarrow> (Inl e, s)
      | Inr True \<Rightarrow>
          (case py_getitem resources resource of
             Inl e \<Rightarrow> (Inl e, s)
           | Inr r \<Rightarrow>
               (case py_get r ''Type'' (PStr ''Unknown'') of
                  Inl e \<Rightarrow> (Inl e, s)
                | Inr resource_type \<Rightarrow>
                    (Inr (), print [G Check, T '' '', T resource, T '': '', V resource_type] s)))
      | Inr False \<Rightarrow> (Inr (), print [G Cross, T '' Missing resource: '', T resource] s))"

definition check_resources :: "bool action" where
  "check_resources s =
     (case section_missing (template s) ''Resources'' of
        Inl e \<Rightarrow> (Inl e, s)
      | Inr True \<Rightarrow> (Inr False, print [G Cross, T '' No Resources section found in template''] s)
      | Inr False \<Rightarrow>
          (case py_getitem (template s) ''Resources'' of
             Inl e \<Rightarrow> (Inl e, s)
           | Inr resources \<Rightarrow>
               (case for_each (check_resource resources) expected_resources
                       (print [NL, G Magnifier, T '' Checking Resources:''] s) of
                  (Inl e, s') \<Rightarrow> (Inl e, s')
                | (Inr u, s') \<Rightarrow> (Inr True, s'))))"

text \<open>
  The three parts of \<^verbatim>\<open>check_bedrock_agent_config\<close> that can raise after the header
  is printed, in the order of the source: the instruction, the idle session TTL, the
  prompt override configuration.
\<close>

definition check_instruction :: "pyval \<Rightarrow> unit action" where
  "check_instruction properties s =
     (case py_in ''Instruction'' properties of
        Inl e \<Rightarrow> (Inl e, s)
      | Inr True \<Rightarrow>
          (case py_getitem properties ''Instruction'' of
             Inl e \<Rightarrow> (Inl e, s)
           | Inr instruction \<Rightarrow>
               (case py_len instruction of
                  Inl e \<Rightarrow> (Inl e, s)
                | Inr instruction_length \<Rightarrow>
                    (Inr (),
                     print [G Check, T '' Agent Instruction: '', N instruction_length,
                            T '' characters''] s)))
      | Inr False \<Rightarrow> (Inr (), print [G Cross, T '' Missing Agent Instruction''] s))"

definition check_prompt_override :: "pyval \<Rightarrow> unit action" where
  "check_prompt_override properties s =
     (case py_in ''PromptOverrideConfiguration'' properties of
        Inl e \<Rightarrow> (Inl e, s)
      | Inr True \<Rightarrow>
          (let s1 = print [G Check, T '' Prompt Override Configuration: Present''] s in
           case py_getitem properties ''PromptOverrideConfiguration'' of
             Inl e \<Rightarrow> (Inl e, s1)
           | Inr poc \<Rightarrow>
               (case py_in ''PromptConfigurations'' poc of
                  Inl e \<Rightarrow> (Inl e, s1)
                | Inr True \<Rightarrow>
                    (case py_getitem poc ''PromptConfigurations'' of
                       Inl e \<Rightarrow> (Inl e, s1)
                     | Inr pcs \<Rightarrow>
                         (case py_len pcs of
                            Inl e \<Rightarrow> (Inl e, s1)
                          | Inr prompt_count \<Rightarrow>
                              (Inr (),
                               print [T ''   '', G Memo, T '' '', N prompt_count,
                                      T '' prompt configurations found''] s1)))
                | Inr False \<Rightarrow> (Inr (), s1)))
      | Inr False \<Rightarrow>
          (Inr (), print [G Warn, T ''  No Prompt Override Configuration''] s))"

definition check_bedrock_agent_config :: "bool action" where
  "check_bedrock_agent_config s =
     (case section_missing (template s) ''Resources'' of
        Inl e \<Rightarrow> (Inl e, s)
      | Inr True \<Rightarrow> (Inr False, s)
      | Inr False \<Rightarrow>
          (case py_getitem (template s) ''Resources'' of
             Inl e \<Rightarrow> (Inl e, s)
           | Inr resources \<Rightarrow>
               (case py_in ''BedrockAgent'' resources of
                  Inl e \<Rightarrow> (Inl e, s)
                | Inr False \<Rightarrow>
                    (Inr False, print [G Cross, T '' BedrockAgent resource not found''] s)
                | Inr True \<Rightarrow>
                    (case py_getitem resources ''BedrockAgent'' of
                       Inl e \<Rightarrow> (Inl e, s)
                     | Inr agent \<Rightarrow>
                         (case py_get agent ''Properties'' (PDict []) of
                            Inl e \<Rightarrow> (Inl e, s)
                          | Inr properties \<Rightarrow>
                              (let s1 = print [NL, G Magnifier,
                                               T '' Checking Bedrock Agent Configuration:''] s in
                               case py_get properties ''FoundationModel'' (PStr ''Not set'') of
                                 Inl e \<Rightarrow> (Inl e, s1)
                               | Inr foundation_model \<Rightarrow>
                                   (let s2 = print [G Check, T '' Foundation Model: '',
                                                    V foundation_model] s1 in
                                    case check_instruction properties s2 of
                                      (Inl e, s3) \<Rightarrow> (Inl e, s3)
                                    | (Inr u, s3) \<Rightarrow>
                                        (case py_get properties ''IdleSessionTTLInSeconds''
                                                (PStr ''Not set'') of
                                           Inl e \<Rightarrow> (Inl e, s3)
                                         | Inr idle_ttl \<Rightarrow>
                                             (let s4 = print [G Check, T '' Idle Session TTL: '',
                                                              V idle_ttl, T '' seconds''] s3 in
                                              case check_prompt_override properties s4 of
                                                (Inl e, s5) \<Rightarrow> (Inl e, s5)
                                              | (Inr u, s5) \<Rightarrow> (Inr True, s5))))))))))"

definition expected_outputs :: "string list" where
  "expected_outputs =
     [''AgentId'', ''AgentAliasId'', ''AgentRoleArn'', ''AgentAliasArn'', ''FoundationModelUsed'']"

text \<open>The body of the loop of \<^verbatim>\<open>check_outputs\<close>.\<close>

definition check_output :: "pyval \<Rightarrow> string \<Rightarrow> unit action" where
  "check_output outputs output s =
     (case py_in output outputs of
        Inl e \<Rightarrow> (Inl e, s)
      | Inr True \<Rightarrow> (Inr (), print [G Check, T '' '', T output] s)
      | Inr False \<Rightarrow> (Inr (), print [G Cross, T '' Missing output: '', T output] s))"

definition check_outputs :: "bool action" where
  "check_outputs s =
     (case section_missing (template s) ''Outputs'' of
        Inl e \<Rightarrow> (Inl e, s)
      | Inr True \<Rightarrow> (Inr False, print [G Cross, T '' No Outputs section found in template''] s)
      | Inr False \<Rightarrow>
          (case py_getitem (template s) ''Outputs'' of
             Inl e \<Rightarrow> (Inl e, s)
           | Inr outputs \<Rightarrow>
               (case for_each (check_output outputs) expected_outputs
                       (print [NL, G Magnifier, T '' Checking Outputs:''] s) of
                  (Inl e, s') \<Rightarrow> (Inl e, s')
                | (Inr u, s') \<Rightarrow> (Inr True, s'))))"

text \<open>
  One of the three counting lines of \<^verbatim>\<open>generate_summary\<close>:
  \<^verbatim>\<open>if K in self.template: print(f"K: {len(self.template[K])}")\<close>.
\<close>

definition summary_count :: "string \<Rightarrow> unit action" where
  "summary_count k s =
     (case py_in k (template s) of
        Inl e \<Rightarrow> (Inl e, s)
      | Inr False \<Rightarrow> (Inr (), s)
      | Inr True \<Rightarrow>
          (case py_getitem (template s) k of
             Inl e \<Rightarrow> (Inl e, s)
           | Inr sec \<Rightarrow>
               (case py_len sec of
                  Inl e \<Rightarrow> (Inl e, s)
                | Inr n \<Rightarrow> (Inr (), print [T k, T '': '', N n] s))))"

definition generate_summary :: "unit action" where
  "generate_summary s =
     (let s1 = print [T (replicate 50 CHR ''='')]
                 (print [NL, G Chart, T '' Template Summary:''] s) in
      if truthy (template s1) then
        (case py_get (template s1) ''Description'' (PStr ''No description'') of
           Inl e \<Rightarrow> (Inl e, s1)
         | Inr d \<Rightarrow>
             (let s2 = print [T ''Description: '', V d] s1 in
              case py_get (template s2) ''AWSTemplateFormatVersion'' (PStr ''Not specified'') of
                Inl e \<Rightarrow> (Inl e, s2)
              | Inr v \<Rightarrow>
                  for_each summary_count [''Parameters'', ''Resources'', ''Outputs'']
                    (print [T ''AWSTemplateFormatVersion: '', V v] s2)))
      else (Inr (), s1))"

text \<open>The list \<^verbatim>\<open>checks\<close> of \<^verbatim>\<open>run_all_checks\<close>, each entry with its \<^verbatim>\<open>__name__\<close>.\<close>

definition checks :: "world \<Rightarrow> (string \<times> bool action) list" where
  "checks w =
     [(''load_template'', load_template w),
      (''check_parameters'', check_parameters),
      (''check_resources'', check_resources),
      (''check_bedrock_agent_config'', check_bedrock_agent_config),
      (''check_outputs'', check_outputs)]"

text \<open>
  The loop of \<^verbatim>\<open>run_all_checks\<close>: an exception of a check is caught, reported with the
  name of the check, and the loop goes on.
\<close>

fun run_checks :: "(string \<times> bool action) list \<Rightarrow> nat \<Rightarrow> tester \<Rightarrow> nat \<times> tester" where
  "run_checks [] passed s = (passed, s)"
| "run_checks ((name, check) # cs) passed s =
     (case check s of
        (Inr b, s') \<Rightarrow> run_checks cs (if b then passed + 1 else passed) s'
      | (Inl e, s') \<Rightarrow>
          run_checks cs passed (print [G Cross, T '' Error in '', T name, T '': '', E e] s'))"

text \<open>
  \<^verbatim>\<open>run_all_checks\<close>. The call of \<^verbatim>\<open>generate_summary\<close> is outside the
  \<^verbatim>\<open>try\<close> of the loop: its exception leaves the call.
\<close>

definition run_all_checks :: "world \<Rightarrow> bool action" where
  "run_all_checks w s =
     (let s0 = print [T (replicate 60 CHR ''='')]
                 (print [G Rocket, T '' Starting AWS Bedrock Agent Template Validation''] s) in
      case run_checks (checks w) 0 s0 of
        (passed, s1) \<Rightarrow>
          (case generate_summary s1 of
             (Inl e, s2) \<Rightarrow> (Inl e, s2)
           | (Inr u, s2) \<Rightarrow>
               (let s3 = print [NL, G Check, T '' Validation complete: '', N passed, T ''/'',
                                N (length (checks w)), T '' checks passed''] s2;
                    s4 = (if passed = length (checks w)
                          then print [G Party, T '' Template is ready for deployment!''] s3
                          else print [G Warn, T ''  Please review and fix the issues above''] s3)
                in (Inr (passed = length (checks w)), s4))))"

text \<open>
  \<^verbatim>\<open>main\<close>. \<open>Inl e\<close> is the process ending with the uncaught exception \<open>e\<close>.
\<close>

definition main :: "world \<Rightarrow> (py_error + unit) \<times> tester" where
  "main w =
     (case run_all_checks w (init ''bedrock-agent-template.yaml'') of
        (Inl e, s1) \<Rightarrow> (Inl e, s1)
      | (Inr success, s1) \<Rightarrow>
          (case validate_template_syntax w
                  (print [NL, G Magnifier, T '' Attempting AWS CloudFormation validation...''] s1) of
             (Inl e, s2) \<Rightarrow>
               (Inr (),
                print [T ''   Make sure you have AWS credentials configured'']
                  (print [G Warn, T ''  AWS validation skipped: '', E e] s2))
           | (Inr b, s2) \<Rightarrow> (Inr (), s2)))"

section \<open>Vocabulary of the properties\<close>


text \<open>A call that leaves both attributes as they are and only appends to the output.\<close>

definition frame :: "tester \<Rightarrow> tester \<Rightarrow> bool" where
  "frame s s' = (template_file s' = template_file s \<and> template s' = template s \<and>
                 (\<exists>ls. stdout s' = stdout s @ ls))"



text \<open>The entry of a key in a mapping; no entry in a value that is not a mapping.\<close>

definition lookup :: "pyval \<Rightarrow> string \<Rightarrow> pyval option" where
  "lookup v k = (case v of PDict d \<Rightarrow> map_of d k | _ \<Rightarrow> None)"



section \<open>Concrete environments and documents\<close>

text \<open>
  An environment in which the template file is readable and parses to \<open>doc\<close>; \<open>client\<close>
  and \<open>remote\<close> are the outcomes of creating the client and of the remote validation.
\<close>

definition world_of :: "pyval \<Rightarrow> py_error + unit \<Rightarrow> py_error + unit \<Rightarrow> world" where
  "world_of doc client remote =
     \<lparr>open_read = (\<lambda>path. Inr []), yaml_safe_load = (\<lambda>text. Inr doc),
      boto3_client = client, validate_template = (\<lambda>body. remote)\<rparr>"

text \<open>The document of a file that holds the single line \<^verbatim>\<open>Parameters:\<close>.\<close>

definition doc_null_parameters :: pyval where
  "doc_null_parameters = PDict [(''Parameters'', PNone)]"

text \<open>A tester that holds the document \<open>doc\<close> and has printed nothing.\<close>

definition with_doc :: "pyval \<Rightarrow> tester" where
  "with_doc doc = \<lparr>template_file = ''bedrock-agent-template.yaml'', template = doc, stdout = []\<rparr>"


text \<open>Parameters with another type and another set of allowed values than expected.\<close>

definition doc_mismatched_parameters :: pyval where
  "doc_mismatched_parameters =
     PDict [(''Parameters'',
       PDict [(''AgentName'', PDict [(''Type'', PStr ''Number'')]),
              (''Environment'', PDict [(''Type'', PStr ''String''),
                 (''AllowedValues'', PList [PStr ''dev'', PStr ''prod''])])])]"














section \<open>Every operation after loading only prints\<close>

lemma print_simps [simp]:
  "template (print l s) = template s"
  "template_file (print l s) = template_file s"
  "stdout (print l s) = stdout s @ [l]"
  by (simp_all add: print_def)

lemma frame_refl [simp]: "frame s s"
  by (simp add: frame_def)

lemma frame_print [simp, intro]: "frame s s' \<Longrightarrow> frame s (print l s')"
  by (auto simp: frame_def)

lemma frame_trans: "frame s s' \<Longrightarrow> frame s' s'' \<Longrightarrow> frame s s''"
  by (auto simp: frame_def)

lemma frame_print_left: "frame (print l s) s' \<Longrightarrow> frame s s'"
  by (auto simp: frame_def)

lemma frame_for_each:
  assumes "\<And>x s. frame s (snd (body x s))"
  shows "frame s (snd (for_each body xs s))"
proof (induction xs arbitrary: s)
  case Nil
  show ?case by simp
next
  case (Cons x xs)
  show ?case
  proof (cases "body x s")
    case (Pair r s')
    with assms[of s x] have f: "frame s s'" by simp
    show ?thesis
    proof (cases r)
      case (Inl e)
      with Pair f show ?thesis by simp
    next
      case (Inr u)
      with Pair have "for_each body (x # xs) s = for_each body xs s'" by simp
      with frame_trans[OF f Cons.IH[of s']] show ?thesis by simp
    qed
  qed
qed

lemma frame_check_param: "frame s (snd (check_param parameters x s))"
  by (cases x) (auto simp: check_param_def Let_def split: sum.splits bool.splits option.splits)

lemma frame_check_resource: "frame s (snd (check_resource resources x s))"
  by (auto simp: check_resource_def Let_def split: sum.splits bool.splits option.splits)

lemma frame_check_output: "frame s (snd (check_output outputs x s))"
  by (auto simp: check_output_def Let_def split: sum.splits bool.splits option.splits)

lemma frame_summary_count: "frame s (snd (summary_count x s))"
  by (auto simp: summary_count_def Let_def split: sum.splits bool.splits option.splits)

lemma frame_check_instruction: "frame s (snd (check_instruction p s))"
  by (auto simp: check_instruction_def Let_def split: sum.splits bool.splits option.splits)

lemma frame_check_prompt_override: "frame s (snd (check_prompt_override p s))"
  by (auto simp: check_prompt_override_def Let_def split: sum.splits bool.splits option.splits)

lemma frame_load_template:
  "template_file (snd (load_template w s)) = template_file s \<and>
   (\<exists>ls. stdout (snd (load_template w s)) = stdout s @ ls)"
  by (auto simp: load_template_def split: sum.splits)

lemma frame_validate_template_syntax: "frame s (snd (validate_template_syntax w s))"
  by (auto simp: validate_template_syntax_def split: sum.splits)

lemma snd_case_result [simp]:
  "snd (case X of (Inl e, s') \<Rightarrow> (Inl e, s') | (Inr u, s') \<Rightarrow> (Inr b, s')) = snd X"
  by (auto split: prod.splits sum.splits)

lemma frame_for_each_from:
  assumes "\<And>x s. frame s (snd (body x s))" and "frame s0 s"
  shows "frame s0 (snd (for_each body xs s))"
  using assms(2) frame_for_each[of body s xs, OF assms(1)] by (rule frame_trans)

lemma frame_check_parameters: "frame s (snd (check_parameters s))"
  by (auto simp: check_parameters_def frame_check_param
           split: sum.splits bool.splits intro!: frame_for_each_from)

lemma frame_check_resources: "frame s (snd (check_resources s))"
  by (auto simp: check_resources_def frame_check_resource
           split: sum.splits bool.splits intro!: frame_for_each_from)

lemma frame_check_outputs: "frame s (snd (check_outputs s))"
  by (auto simp: check_outputs_def frame_check_output
           split: sum.splits bool.splits intro!: frame_for_each_from)

lemma frame_sum_caseI:
  assumes "\<And>e. r = Inl e \<Longrightarrow> frame s0 (snd (f e))" and "\<And>v. r = Inr v \<Longrightarrow> frame s0 (snd (g v))"
  shows "frame s0 (snd (case r of Inl e \<Rightarrow> f e | Inr v \<Rightarrow> g v))"
  using assms by (cases r) auto

lemma frame_bool_caseI:
  assumes "b \<Longrightarrow> frame s0 (snd x)" and "\<not> b \<Longrightarrow> frame s0 (snd y)"
  shows "frame s0 (snd (case b of True \<Rightarrow> x | False \<Rightarrow> y))"
  using assms by (cases b) auto

lemma frame_prod_caseI:
  assumes "frame s0 (snd X)" and "\<And>r s'. frame s0 s' \<Longrightarrow> frame s0 (snd (F r s'))"
  shows "frame s0 (snd (case X of (r, s') \<Rightarrow> F r s'))"
  using assms by (cases X) auto

lemma frame_pairI: "frame s0 s' \<Longrightarrow> frame s0 (snd (r, s'))"
  by simp

lemma frame_check_instruction_from: "frame s0 s \<Longrightarrow> frame s0 (snd (check_instruction p s))"
  by (erule frame_trans) (rule frame_check_instruction)

lemma frame_check_prompt_override_from:
  "frame s0 s \<Longrightarrow> frame s0 (snd (check_prompt_override p s))"
  by (erule frame_trans) (rule frame_check_prompt_override)

lemmas frame_intros =
  frame_sum_caseI frame_bool_caseI frame_prod_caseI frame_pairI frame_print frame_refl
  frame_check_instruction_from frame_check_prompt_override_from

lemma frame_check_bedrock_agent_config: "frame s (snd (check_bedrock_agent_config s))"
  unfolding check_bedrock_agent_config_def Let_def
  by (intro frame_intros)

lemma frame_generate_summary: "frame s (snd (generate_summary s))"
proof -
  have fe: "frame s0 (snd (for_each summary_count ks s1))" if "frame s0 s1" for s0 s1 ks
    using that by (rule frame_for_each_from[OF frame_summary_count])
  show ?thesis
    unfolding generate_summary_def Let_def
    by (intro frame_intros fe if_split[where P="\<lambda>x. frame s (snd x)", THEN iffD2] conjI impI)
qed

lemma frame_run_checks:
  assumes "\<And>name c s. (name, c) \<in> set cs \<Longrightarrow> frame s (snd (c s))"
  shows "frame s (snd (run_checks cs p s))"
  using assms
proof (induction cs arbitrary: p s)
  case Nil
  show ?case by simp
next
  case (Cons nc cs)
  obtain name c where nc: "nc = (name, c)" by (cases nc)
  obtain r s' where cs': "c s = (r, s')" by (cases "c s")
  have f: "frame s s'" using Cons.prems[of name c s] nc cs' by simp
  have rest: "frame s1 (snd (run_checks cs q s1))" for q s1
  proof (rule Cons.IH)
    fix name' c' s2
    assume "(name', c') \<in> set cs"
    then show "frame s2 (snd (c' s2))" by (intro Cons.prems[of name']) simp
  qed
  show ?case
  proof (cases r)
    case (Inl e)
    have "frame s (print [G Cross, T '' Error in '', T name, T '': '', E e] s')"
      using f by simp
    from frame_trans[OF this rest] show ?thesis using nc cs' Inl by simp
  next
    case (Inr b)
    from frame_trans[OF f rest] show ?thesis using nc cs' Inr by simp
  qed
qed

lemma load_template_cases:
  "(\<exists>doc. load_template w s =
      (Inr True, print [G Check, T '' Template loaded successfully: '', T (template_file s)]
                   (s\<lparr>template := doc\<rparr>)) \<and>
      (\<exists>text. open_read w (template_file s) = Inr text \<and> yaml_safe_load w text = Inr doc)) \<or>
   (\<exists>e. load_template w s = (Inr False, print [G Cross, T '' Error loading template: '', E e] s))"
  by (auto simp: load_template_def split: sum.splits)

lemma load_template_template:
  "template_file s = template_file s' \<Longrightarrow> template s = template s' \<Longrightarrow>
   template (snd (load_template w s)) = template (snd (load_template w s'))"
  by (auto simp: load_template_def split: sum.splits)

lemma load_template_idem:
  "template (snd (load_template w (snd (load_template w s)))) = template (snd (load_template w s))"
  by (auto simp: load_template_def print_def split: sum.splits)

lemma frame_rest_checks:
  "frame s (snd (run_checks
      [(''check_parameters'', check_parameters), (''check_resources'', check_resources),
       (''check_bedrock_agent_config'', check_bedrock_agent_config),
       (''check_outputs'', check_outputs)] p s))"
  by (rule frame_run_checks)
     (auto simp: frame_check_parameters frame_check_resources frame_check_bedrock_agent_config
        frame_check_outputs)

lemma run_checks_template:
  "template (snd (run_checks (checks w) p s)) = template (snd (load_template w s)) \<and>
   template_file (snd (run_checks (checks w) p s)) = template_file s"
proof -
  obtain r s' where l: "load_template w s = (r, s')" by (cases "load_template w s")
  have tf: "template_file s' = template_file s"
    using frame_load_template[of w s] l by simp
  show ?thesis
  proof (cases r)
    case (Inl e)
    with l load_template_cases[of w s] show ?thesis by auto
  next
    case (Inr b)
    with l tf frame_rest_checks[of s' "if b then p + 1 else p"] show ?thesis
      by (simp add: checks_def frame_def)
  qed
qed

lemma run_all_checks_template:
  "template (snd (run_all_checks w s)) = template (snd (load_template w s)) \<and>
   template_file (snd (run_all_checks w s)) = template_file s"
proof -
  define s0 where "s0 = print [T (replicate 60 CHR ''='')]
     (print [G Rocket, T '' Starting AWS Bedrock Agent Template Validation''] s)"
  obtain passed s1 where rc: "run_checks (checks w) 0 s0 = (passed, s1)"
    by (cases "run_checks (checks w) 0 s0")
  have t1: "template s1 = template (snd (load_template w s))" "template_file s1 = template_file s"
    using run_checks_template[of w 0 s0] rc load_template_template[of s0 s w]
    by (simp_all add: s0_def)
  obtain r s2 where gs: "generate_summary s1 = (r, s2)" by (cases "generate_summary s1")
  have t2: "template s2 = template s1" "template_file s2 = template_file s1"
    using frame_generate_summary[of s1] gs by (simp_all add: frame_def)
  show ?thesis
    using rc gs t1 t2 unfolding run_all_checks_def Let_def s0_def[symmetric]
    by (cases r) simp_all
qed

subsection \<open>The guard of the checks\<close>

lemma section_missing_falsy: "\<not> truthy t \<Longrightarrow> section_missing t k = Inr True"
  by (simp add: section_missing_def)



lemma lookup_dict [simp]: "lookup (PDict d) k = map_of d k"
  by (simp add: lookup_def)



subsection \<open>Loops that do not raise\<close>



subsection \<open>\<^verbatim>\<open>check_parameters\<close>\<close>

lemma check_parameters_falsy:
  "\<not> truthy (template s) \<Longrightarrow>
   check_parameters s = (Inr False, print [G Cross, T '' No Parameters section found in template''] s)"
  by (simp add: check_parameters_def section_missing_falsy)







subsection \<open>\<^verbatim>\<open>check_resources\<close> and \<^verbatim>\<open>check_outputs\<close>\<close>

lemma check_resources_falsy:
  "\<not> truthy (template s) \<Longrightarrow>
   check_resources s = (Inr False, print [G Cross, T '' No Resources section found in template''] s)"
  by (simp add: check_resources_def section_missing_falsy)






lemma check_outputs_falsy:
  "\<not> truthy (template s) \<Longrightarrow>
   check_outputs s = (Inr False, print [G Cross, T '' No Outputs section found in template''] s)"
  by (simp add: check_outputs_def section_missing_falsy)






subsection \<open>\<^verbatim>\<open>check_bedrock_agent_config\<close>\<close>




















subsection \<open>\<^verbatim>\<open>generate_summary\<close> and \<^verbatim>\<open>run_all_checks\<close>\<close>







text \<open>
  Mismatches are warnings: the run of \<^verbatim>\<open>check_parameters\<close> on parameters with another
  type and another set of allowed values.
\<close>

lemma check_parameters_mismatch_example:
  "check_parameters (with_doc doc_mismatched_parameters) =
     (Inr True,
      (with_doc doc_mismatched_parameters)
        \<lparr>stdout :=
           [[NL, G Magnifier, T '' Checking Parameters:''],
            [G Check, T '' '', T ''AgentName'', T '': '', V (PStr ''No default'')],
            [T ''  '', G Warn, T ''  Type mismatch: expected '', T ''String'', T '', got '',
             V (PStr ''Number'')],
            [G Cross, T '' Missing parameter: '', T ''FoundationModel''],
            [G Check, T '' '', T ''Environment'', T '': '', V (PStr ''No default'')],
            [T ''  '', G Warn, T ''  AllowedValues mismatch for '', T ''Environment'']]\<rparr>)"
  by code_simp

subsection \<open>\<^verbatim>\<open>validate_template_syntax\<close> and \<^verbatim>\<open>main\<close>\<close>

lemma validate_template_syntax_returns: "\<exists>b. fst (validate_template_syntax w s) = Inr b"
  by (auto simp: validate_template_syntax_def split: sum.splits)

text \<open>The handler of \<^verbatim>\<open>main\<close> is dead code: \<^verbatim>\<open>main\<close> is equal to a program without it.\<close>

lemma main_without_handler:
  "main w =
     (case run_all_checks w (init ''bedrock-agent-template.yaml'') of
        (Inl e, s1) \<Rightarrow> (Inl e, s1)
      | (Inr success, s1) \<Rightarrow>
          (Inr (),
           snd (validate_template_syntax w
                  (print [NL, G Magnifier, T '' Attempting AWS CloudFormation validation...'']
                     s1))))"
proof -
  have "(case validate_template_syntax w s of
           (Inl e, s2) \<Rightarrow>
             (Inr (),
              print [T ''   Make sure you have AWS credentials configured'']
                (print [G Warn, T ''  AWS validation skipped: '', E e] s2))
         | (Inr b, s2) \<Rightarrow> (Inr (), s2)) = (Inr (), snd (validate_template_syntax w s))" for s
    using validate_template_syntax_returns[of w s]
    by (cases "validate_template_syntax w s") auto
  note h = this
  obtain r s1 where ra: "run_all_checks w (init ''bedrock-agent-template.yaml'') = (r, s1)"
    by (cases "run_all_checks w (init ''bedrock-agent-template.yaml'')")
  show ?thesis
    by (cases r) (simp_all add: main_def ra h)
qed

text \<open>
  The loop catches: a check that raises is reported by name, counts for nothing, and the
  rest of the list runs. The run as a whole raises exactly when the summary does.
\<close>

lemma run_checks_catches:
  "check s = (Inl e, s') \<Longrightarrow>
   run_checks ((name, check) # cs) passed s =
     run_checks cs passed (print [G Cross, T '' Error in '', T name, T '': '', E e] s')"
  by simp

lemma run_all_checks_raises_iff:
  "fst (run_all_checks w s) = Inl e \<longleftrightarrow>
   fst (generate_summary
          (snd (run_checks (checks w) 0
             (print [T (replicate 60 CHR ''='')]
                (print [G Rocket, T '' Starting AWS Bedrock Agent Template Validation''] s))))) =
     Inl e"
  by (auto simp: run_all_checks_def Let_def split: prod.splits sum.splits)

section \<open>The summary is outside the handler of the loop\<close>

text \<open>
  C4. Every step of \<^verbatim>\<open>run_all_checks\<close> runs inside \<^verbatim>\<open>try\<close>, but
  \<^verbatim>\<open>generate_summary\<close> does not. On the document \<^verbatim>\<open>{Parameters: None}\<close> the
  exception of \<^verbatim>\<open>check_parameters\<close> is caught and reported by name and the later
  checks run; then \<^verbatim>\<open>len(None)\<close> in the summary raises, the exception leaves
  \<^verbatim>\<open>run_all_checks\<close> and \<^verbatim>\<open>main\<close>, and the line with the count of passed checks
  is never printed.
\<close>

theorem run_all_checks_summary_raises:
  "main (world_of doc_null_parameters (Inr ()) (Inr ())) =
     (Inl TypeError,
      \<lparr>template_file = ''bedrock-agent-template.yaml'',
       template = doc_null_parameters,
       stdout =
         [[G Rocket, T '' Starting AWS Bedrock Agent Template Validation''],
          [T (replicate 60 CHR ''='')],
          [G Check, T '' Template loaded successfully: '', T ''bedrock-agent-template.yaml''],
          [NL, G Magnifier, T '' Checking Parameters:''],
          [G Cross, T '' Error in '', T ''check_parameters'', T '': '', E TypeError],
          [G Cross, T '' No Resources section found in template''],
          [G Cross, T '' No Outputs section found in template''],
          [NL, G Chart, T '' Template Summary:''],
          [T (replicate 50 CHR ''='')],
          [T ''Description: '', V (PStr ''No description'')],
          [T ''AWSTemplateFormatVersion: '', V (PStr ''Not specified'')]]\<rparr>)"
  by code_simp

section \<open>The handler of \<^verbatim>\<open>main\<close> is never reached\<close>

text \<open>
  C5. When the remote validation fails, \<^verbatim>\<open>validate_template_syntax\<close> catches the
  exception itself, prints it as a validation error and returns \<^verbatim>\<open>False\<close>; the
  handler of \<^verbatim>\<open>main\<close>, which holds the warning and the hint about credentials, does
  not run. The run is on the empty mapping, with a remote call that raises.
\<close>

theorem validation_failure_prints_no_hint:
  "main (world_of (PDict []) (Inr ()) (Inl (ExternalError ''NoCredentialsError''))) =
     (Inr (),
      \<lparr>template_file = ''bedrock-agent-template.yaml'',
       template = PDict [],
       stdout =
         [[G Rocket, T '' Starting AWS Bedrock Agent Template Validation''],
          [T (replicate 60 CHR ''='')],
          [G Check, T '' Template loaded successfully: '', T ''bedrock-agent-template.yaml''],
          [G Cross, T '' No Parameters section found in template''],
          [G Cross, T '' No Resources section found in template''],
          [G Cross, T '' No Outputs section found in template''],
          [NL, G Chart, T '' Template Summary:''],
          [T (replicate 50 CHR ''='')],
          [NL, G Check, T '' Validation complete: '', N 1, T ''/'', N 5, T '' checks passed''],
          [G Warn, T ''  Please review and fix the issues above''],
          [NL, G Magnifier, T '' Attempting AWS CloudFormation validation...''],
          [G Cross, T '' Template validation error: '',
           E (ExternalError ''NoCredentialsError'')]]\<rparr>)"
  by code_simp

section \<open>The stored document is read-only\<close>

text \<open>
  C10. None of the four checks, the summary and the remote validation changes the stored
  document. \<^verbatim>\<open>run_all_checks\<close> changes it only through its own load step: the
  document after the run is the document after loading, also when the run starts from a
  tester that has loaded the same file already.
\<close>

theorem document_never_mutated:
  "template (snd (check_parameters s)) = template s \<and>
   template (snd (check_resources s)) = template s \<and>
   template (snd (check_bedrock_agent_config s)) = template s \<and>
   template (snd (check_outputs s)) = template s \<and>
   template (snd (generate_summary s)) = template s \<and>
   template (snd (validate_template_syntax w s)) = template s \<and>
   template (snd (run_all_checks w s)) = template (snd (load_template w s)) \<and>
   template (snd (run_all_checks w (snd (load_template w s)))) =
     template (snd (load_template w s))"
  using frame_check_parameters[of s] frame_check_resources[of s]
    frame_check_bedrock_agent_config[of s] frame_check_outputs[of s]
    frame_generate_summary[of s] frame_validate_template_syntax[of s w]
    run_all_checks_template[of w s] run_all_checks_template[of w "snd (load_template w s)"]
    load_template_idem[of w s]
  by (simp add: frame_def)

section \<open>\<^verbatim>\<open>check_parameters\<close>\<close>




section \<open>\<^verbatim>\<open>check_resources\<close> and \<^verbatim>\<open>check_outputs\<close>\<close>




section \<open>Empty and null documents\<close>

text \<open>
  C9. When the file parses to a falsy document (null, an empty mapping, an empty
  sequence, an empty string, zero, false), \<^verbatim>\<open>load_template\<close> stores it and returns
  success, and each of the four checks returns failure, as it does on a tester that
  has loaded nothing.
\<close>

theorem falsy_document_fails_every_check:
  assumes "open_read w (template_file s) = Inr text" and "yaml_safe_load w text = Inr doc"
    and "\<not> truthy doc"
  shows "fst (load_template w s) = Inr True \<and>
    template (snd (load_template w s)) = doc \<and>
    fst (check_parameters (snd (load_template w s))) = Inr False \<and>
    fst (check_resources (snd (load_template w s))) = Inr False \<and>
    fst (check_bedrock_agent_config (snd (load_template w s))) = Inr False \<and>
    fst (check_outputs (snd (load_template w s))) = Inr False \<and>
    fst (check_parameters (init (template_file s))) = Inr False \<and>
    fst (check_resources (init (template_file s))) = Inr False \<and>
    fst (check_bedrock_agent_config (init (template_file s))) = Inr False \<and>
    fst (check_outputs (init (template_file s))) = Inr False"
proof -
  have l: "fst (load_template w s) = Inr True" "template (snd (load_template w s)) = doc"
    using assms(1,2) by (simp_all add: load_template_def)
  have f: "\<not> truthy (template (snd (load_template w s)))"
    using l(2) assms(3) by simp
  have u: "\<not> truthy (template (init (template_file s)))"
    by (simp add: init_def)
  have agent: "fst (check_bedrock_agent_config s') = Inr False" if "\<not> truthy (template s')" for s'
    using that by (simp add: check_bedrock_agent_config_def section_missing_falsy)
  show ?thesis
    using l by (simp add: check_parameters_falsy[OF f] check_resources_falsy[OF f]
      check_outputs_falsy[OF f] agent[OF f] check_parameters_falsy[OF u]
      check_resources_falsy[OF u] check_outputs_falsy[OF u] agent[OF u])
qed

text \<open>The theorem at an empty file (null) and at an empty mapping.\<close>

theorem falsy_document_fails_every_check_witness:
  "fst (load_template (world_of PNone (Inr ()) (Inr ())) (init ''t.yaml'')) = Inr True \<and>
   fst (check_parameters (snd (load_template (world_of PNone (Inr ()) (Inr ()))
         (init ''t.yaml'')))) = Inr False \<and>
   fst (load_template (world_of (PDict []) (Inr ()) (Inr ())) (init ''t.yaml'')) = Inr True \<and>
   fst (check_outputs (snd (load_template (world_of (PDict []) (Inr ()) (Inr ()))
         (init ''t.yaml'')))) = Inr False"
  using falsy_document_fails_every_check[of "world_of PNone (Inr ()) (Inr ())" "init ''t.yaml''"
      "[]" PNone]
    falsy_document_fails_every_check[of "world_of (PDict []) (Inr ()) (Inr ())" "init ''t.yaml''"
      "[]" "PDict []"]
  by (simp add: world_of_def)

section \<open>Missing resources and the agent resource\<close>




section \<open>The report on the agent instruction\<close>



section \<open>The report on the prompt override configuration\<close>




section \<open>The whole run\<close>




end
